theory Spec2Isabelle
  imports Complex_Main "HOL-Library.Monad_Syntax"
begin

section \<open>Data model\<close>

text \<open>
  The engine of \<^verbatim>\<open>main.py\<close>: \<^verbatim>\<open>fetch_with_metrics\<close> (one request),
  \<^verbatim>\<open>run_load_test\<close> (the batch) and the computing part of
  \<^verbatim>\<open>process_and_display_results\<close> (the summary).

  Python floats are idealised as rationals: sums, products and quotients are exact.
  Times read from \<^verbatim>\<open>time.perf_counter()\<close> are seconds on one timeline, and
  \<^verbatim>\<open>datetime.now()\<close> is read off the same timeline.
\<close>

text \<open>
  What the HTTP exchange can raise inside the \<^verbatim>\<open>try\<close> block: \<^verbatim>\<open>asyncio.TimeoutError\<close>,
  or any other subclass of \<^verbatim>\<open>Exception\<close>, which carries the text \<^verbatim>\<open>str(e)\<close>.
  Signals that are not subclasses of \<^verbatim>\<open>Exception\<close> (the cancellation of the task, the exit
  of the interpreter) are not failures of a request and are left out.
\<close>

datatype exn = TimeoutError | OtherException string

text \<open>The \<^verbatim>\<open>"status"\<close> entry: a numeric HTTP status, or a sentinel string.\<close>

datatype status_value = Http int | Sentinel string

text \<open>
  The result dictionary. An entry that a path of \<^verbatim>\<open>fetch_with_metrics\<close> leaves out is
  \<open>None\<close>; \<^verbatim>\<open>"response_time": None\<close> is \<open>None\<close> too (its only reader asks
  \<^verbatim>\<open>r.get("response_time") is not None\<close>, which does not tell the two apart).
\<close>

record request_result =
  status :: status_value
  response_time :: "rat option"
  content_length :: "nat option"
  success :: bool
  timestamp :: "rat option"
  error :: "string option"

text \<open>
  One HTTP exchange, \<^verbatim>\<open>session.get(url, timeout=ClientTimeout(total=timeout))\<close> followed
  by \<^verbatim>\<open>response.text()\<close>: it ends with a response (status and body text) or raises,
  after \<open>elapsed\<close> seconds.
\<close>

datatype reply = Response int string | Raised exn

record exchange =
  reply :: reply
  elapsed :: rat

text \<open>
  The network, as the batch sees it: what the exchange of the \<open>i\<close>-th dispatched request
  to \<open>url\<close> does under a total timeout budget. The budget is the only thing the program
  hands to the HTTP client besides the URL.
\<close>

type_synonym network = "nat \<Rightarrow> string \<Rightarrow> int \<Rightarrow> exchange"

section \<open>The request executor\<close>

text \<open>
  The task's clock (seconds, as \<^verbatim>\<open>time.perf_counter()\<close> reads it) is the state that the
  executor threads through: each function takes the clock at its start and returns the
  clock at its end beside its value.
\<close>

text \<open>\<^verbatim>\<open>await asyncio.sleep(seconds)\<close>: the task resumes \<open>seconds\<close> later.\<close>

definition asyncio_sleep :: "rat \<Rightarrow> rat \<Rightarrow> rat" where
  "asyncio_sleep seconds clock = clock + seconds"

text \<open>
  The body of the \<^verbatim>\<open>try\<close> block of \<^verbatim>\<open>fetch_with_metrics\<close>; \<open>Inl e\<close> is the exception
  \<open>e\<close> leaving the block. \<open>start_time\<close> is the reading taken before the block.
\<close>

definition try_block :: "(string \<Rightarrow> int \<Rightarrow> exchange) \<Rightarrow> string \<Rightarrow> int \<Rightarrow> int \<Rightarrow> rat \<Rightarrow> rat
    \<Rightarrow> (exn + request_result) \<times> rat" where
  "try_block session url timeout delay start_time clock =
     (let clock1 = (if delay > 0 then asyncio_sleep (of_int delay / 1000) clock else clock);
          ex = session url timeout;
          clock2 = clock1 + elapsed ex
      in case reply ex of
           Raised e \<Rightarrow> (Inl e, clock2)
         | Response response_status content \<Rightarrow>
             (let end_time = clock2
              in (Inr \<lparr> status = Http response_status,
                        response_time = Some ((end_time - start_time) * 1000),
                        content_length = Some (length content),
                        success = (200 \<le> response_status \<and> response_status < 300),
                        timestamp = Some end_time,
                        error = None \<rparr>, clock2)))"

text \<open>
  \<^verbatim>\<open>fetch_with_metrics(session, url, timeout, delay)\<close>, started when the task's clock
  reads \<open>clock\<close>. \<open>Inl e\<close> would be an exception raised to the caller.
\<close>

definition fetch_with_metrics :: "(string \<Rightarrow> int \<Rightarrow> exchange) \<Rightarrow> string \<Rightarrow> int \<Rightarrow> int \<Rightarrow> rat
    \<Rightarrow> (exn + request_result) \<times> rat" where
  "fetch_with_metrics session url timeout delay clock =
     (let start_time = clock;
          (outcome, clock') = try_block session url timeout delay start_time clock
      in case outcome of
           Inr r \<Rightarrow> (Inr r, clock')
         | Inl TimeoutError \<Rightarrow>
             (Inr \<lparr> status = Sentinel ''timeout'',
                    response_time = Some (of_int (timeout * 1000)),
                    content_length = None,
                    success = False,
                    timestamp = None,
                    error = Some ''Timeout'' \<rparr>, clock')
         | Inl (OtherException msg) \<Rightarrow>
             (Inr \<lparr> status = Sentinel ''error'',
                    response_time = None,
                    content_length = None,
                    success = False,
                    timestamp = None,
                    error = Some msg \<rparr>, clock'))"

section \<open>The load runner\<close>

text \<open>
  The loop \<^verbatim>\<open>for _ in range(n): tasks.append(fetch_with_metrics(...))\<close> after \<open>k\<close>
  iterations. Every task starts on the same clock reading; the \<open>i\<close>-th one meets the
  network's \<open>i\<close>-th exchange. A task is represented by what awaiting it yields.
\<close>

fun dispatch :: "network \<Rightarrow> rat \<Rightarrow> string \<Rightarrow> int \<Rightarrow> int \<Rightarrow> nat \<Rightarrow> (exn + request_result) list" where
  "dispatch net clock url timeout delay 0 = []"
| "dispatch net clock url timeout delay (Suc k) =
     dispatch net clock url timeout delay k
       @ [fst (fetch_with_metrics (net k) url timeout delay clock)]"

text \<open>
  \<^verbatim>\<open>asyncio.gather(*tasks, return_exceptions=True)\<close>: one entry per task, in the order
  of the tasks; a task that raised contributes its exception as a value (\<open>Inl e\<close>).
\<close>

definition gather :: "(exn + 'a) list \<Rightarrow> (exn + 'a) list" where
  "gather tasks = tasks"

text \<open>\<^verbatim>\<open>range(n)\<close> of a negative \<open>n\<close> is empty.\<close>

definition run_load_test :: "network \<Rightarrow> rat \<Rightarrow> string \<Rightarrow> int \<Rightarrow> int \<Rightarrow> int \<Rightarrow> int
    \<Rightarrow> (exn + request_result) list" where
  "run_load_test net clock url concurrent_users requests_per_user timeout delay =
     gather (dispatch net clock url timeout delay (nat (concurrent_users * requests_per_user)))"

section \<open>Statistics\<close>

text \<open>
  The functions of Python's standard library that the summary calls (\<^verbatim>\<open>min\<close>,
  \<^verbatim>\<open>max\<close>, and \<^verbatim>\<open>mean\<close>, \<^verbatim>\<open>median\<close>, \<^verbatim>\<open>quantiles\<close> of the module
  \<^verbatim>\<open>statistics\<close>, after CPython's \<^verbatim>\<open>Lib/statistics.py\<close>), on exact numbers.
  \<open>None\<close> is the exception the Python raises (\<^verbatim>\<open>ValueError\<close>, \<^verbatim>\<open>StatisticsError\<close>,
  \<^verbatim>\<open>IndexError\<close>).
\<close>

definition py_min :: "rat list \<Rightarrow> rat option" where
  "py_min xs = (if xs = [] then None else Some (Min (set xs)))"

definition py_max :: "rat list \<Rightarrow> rat option" where
  "py_max xs = (if xs = [] then None else Some (Max (set xs)))"

definition mean :: "rat list \<Rightarrow> rat option" where
  "mean xs = (if xs = [] then None else Some (sum_list xs / of_nat (length xs)))"

text \<open>\<^verbatim>\<open>statistics.median\<close>: the middle of the sorted data, or the mean of the two middle values.\<close>

definition median :: "rat list \<Rightarrow> rat option" where
  "median xs =
     (let data = sort xs; n = length data
      in if n = 0 then None
         else if n mod 2 = 1 then Some (data ! (n div 2))
         else (let i = n div 2 in Some ((data ! (i - 1) + data ! i) / 2)))"

text \<open>
  One cut point of \<^verbatim>\<open>statistics.quantiles(data, n=n)\<close> with the default method
  \<^verbatim>\<open>'exclusive'\<close>, for \<open>i\<close> in \<open>1..<n\<close> and sorted \<open>data\<close> of length \<open>ld\<close>:
  \<^verbatim>\<open>j = i * m // n\<close>, clamped to \<open>1 .. ld - 1\<close>, \<^verbatim>\<open>delta = i*m - j*n\<close>,
  \<^verbatim>\<open>(data[j-1] * (n - delta) + data[j] * delta) / n\<close>.
\<close>

definition cut_index :: "nat \<Rightarrow> nat \<Rightarrow> nat \<Rightarrow> nat" where
  "cut_index ld n i =
     (let m = ld + 1; j = i * m div n
      in if j < 1 then 1 else if j > ld - 1 then ld - 1 else j)"

definition cut_point :: "rat list \<Rightarrow> nat \<Rightarrow> nat \<Rightarrow> rat" where
  "cut_point data n i =
     (let ld = length data; m = ld + 1; j = cut_index ld n i;
          delta = int (i * m) - int (j * n)
      in (data ! (j - 1) * of_int (int n - delta) + data ! j * of_int delta) / of_nat n)"

definition quantiles :: "rat list \<Rightarrow> nat \<Rightarrow> rat list option" where
  "quantiles xs n =
     (if n < 1 then None
      else (let data = sort xs; ld = length data
            in if ld < 2 then None
               else Some (map (cut_point data n) [1..<n])))"

text \<open>\<^verbatim>\<open>xs[i]\<close> for an index that is not negative.\<close>

definition index :: "'a list \<Rightarrow> nat \<Rightarrow> 'a option" where
  "index xs i = (if i < length xs then Some (xs ! i) else None)"

section \<open>The metrics aggregator\<close>

text \<open>The entries of the batch that are dictionaries (\<^verbatim>\<open>isinstance(r, dict)\<close>).\<close>

fun dicts :: "(exn + request_result) list \<Rightarrow> request_result list" where
  "dicts [] = []"
| "dicts (Inl e # rs) = dicts rs"
| "dicts (Inr r # rs) = r # dicts rs"

definition valid_results :: "(exn + request_result) list \<Rightarrow> request_result list" where
  "valid_results results = filter (\<lambda>r. response_time r \<noteq> None) (dicts results)"

definition successful_results :: "(exn + request_result) list \<Rightarrow> request_result list" where
  "successful_results results = filter success (valid_results results)"

text \<open>\<^verbatim>\<open>[r["response_time"] for r in valid_results]\<close>: the latency sample.\<close>

definition response_times :: "(exn + request_result) list \<Rightarrow> rat list" where
  "response_times results = map (\<lambda>r. the (response_time r)) (valid_results results)"

text \<open>
  The table \<^verbatim>\<open>metrics_df\<close> of the response time analysis (minimum, median, P95, P99,
  maximum), and the numbers of the summary.
\<close>

record latency_table =
  minimum :: rat
  p50 :: rat
  p95 :: rat
  p99 :: rat
  maximum :: rat

record summary =
  total_requests :: nat
  success_count :: nat
  success_rate :: rat
  avg_response_time :: rat
  throughput :: rat
  analysis :: "latency_table option"

text \<open>
  What \<^verbatim>\<open>process_and_display_results\<close> shows: the error box "No valid responses
  received" followed by an early return, or the report.
\<close>

datatype display = NoValidResponses | Report summary

text \<open>
  The block under \<^verbatim>\<open># Calculate percentiles\<close>: the median, the two percentiles with
  their fallback to the maximum for small samples, and the extremes.
\<close>

definition percentile_table :: "rat list \<Rightarrow> latency_table option" where
  "percentile_table sample =
     do {
       median_value \<leftarrow> median sample;
       p95_value \<leftarrow> (if length sample \<ge> 20
                     then do { qs \<leftarrow> quantiles sample 100; index qs 94 }
                     else py_max sample);
       p99_value \<leftarrow> (if length sample \<ge> 50
                     then do { qs \<leftarrow> quantiles sample 100; index qs 98 }
                     else py_max sample);
       lo \<leftarrow> py_min sample;
       hi \<leftarrow> py_max sample;
       Some \<lparr> minimum = lo, p50 = median_value, p95 = p95_value, p99 = p99_value,
              maximum = hi \<rparr>
     }"

text \<open>
  The computing part of \<^verbatim>\<open>process_and_display_results(results, total_duration, ...)\<close>:
  the early return on an empty valid set, then the counts, the success rate, the mean, the
  throughput and, under \<^verbatim>\<open>if response_times:\<close>, the table.
  \<open>None\<close> is an exception leaving the function.
\<close>

definition process_and_display_results :: "(exn + request_result) list \<Rightarrow> rat \<Rightarrow> display option" where
  "process_and_display_results results total_duration =
     (if valid_results results = [] then Some NoValidResponses
      else
        (let sample = response_times results;
             n_success = length (successful_results results);
             n_total = length results;
             rate = (if n_total > 0 then (of_nat n_success / of_nat n_total) * 100 else 0)
         in do {
              avg \<leftarrow> (if sample \<noteq> [] then mean sample else Some 0);
              table \<leftarrow> (if sample \<noteq> [] then map_option Some (percentile_table sample)
                        else Some None);
              Some (Report \<lparr> total_requests = n_total,
                             success_count = n_success,
                             success_rate = rate,
                             avg_response_time = avg,
                             throughput = (if total_duration > 0
                                           then of_nat n_total / total_duration else 0),
                             analysis = table \<rparr>)
            }))"

section \<open>Example networks\<close>

text \<open>
  A server that needs \<open>d\<close> seconds for every exchange: the client gets status 200 when the
  budget allows it and a timeout, at the end of the budget, when it does not.
\<close>

definition slow_server :: "rat \<Rightarrow> network" where
  "slow_server d i url timeout =
     (if of_int timeout < d then \<lparr> reply = Raised TimeoutError, elapsed = of_int timeout \<rparr>
      else \<lparr> reply = Response 200 ''ok'', elapsed = d \<rparr>)"

text \<open>A host that cannot be reached.\<close>

definition unreachable :: network where
  "unreachable i url timeout =
     \<lparr> reply = Raised (OtherException ''Cannot connect to host''), elapsed = 0 \<rparr>"

text \<open>A server that answers within 100 ms, but for the 50th request, which takes 200 ms.\<close>

definition tail_server :: network where
  "tail_server i url timeout =
     \<lparr> reply = Response 200 ''ok'', elapsed = (if i < 49 then 1/10 else 1/5) \<rparr>"

text \<open>Three requests: the first cannot connect, the second times out, the third is answered.\<close>

definition mixed_server :: network where
  "mixed_server i url timeout =
     (if i = 0 then \<lparr> reply = Raised (OtherException ''Cannot connect to host''), elapsed = 0 \<rparr>
      else if i = 1 then \<lparr> reply = Raised TimeoutError, elapsed = of_int timeout \<rparr>
      else \<lparr> reply = Response 200 ''ok'', elapsed = 1/20 \<rparr>)"

section \<open>Properties of the load runner\<close>

lemma length_dispatch: "length (dispatch net clock url timeout delay k) = k"
  by (induction k) simp_all

lemma nth_dispatch:
  "i < k \<Longrightarrow> dispatch net clock url timeout delay k ! i
     = fst (fetch_with_metrics (net i) url timeout delay clock)"
  by (induction k) (auto simp: nth_append length_dispatch less_Suc_eq)

lemma length_run_load_test:
  "length (run_load_test net clock url cu rpu timeout delay) = nat (cu * rpu)"
  by (simp add: run_load_test_def gather_def length_dispatch)

lemma nth_run_load_test:
  "i < nat (cu * rpu) \<Longrightarrow>
   run_load_test net clock url cu rpu timeout delay ! i
     = fst (fetch_with_metrics (net i) url timeout delay clock)"
  by (simp add: run_load_test_def gather_def nth_dispatch)

text \<open>
  C1. For a configuration whose product \<open>concurrent_users * requests_per_user\<close> is not
  negative (every configuration of the form: 1..100 users, 1..50 requests each),
  \<open>run_load_test\<close> returns exactly that many entries, and the \<open>i\<close>-th entry is the outcome
  of the \<open>i\<close>-th dispatched execution.
\<close>

theorem run_load_test_length:
  assumes "0 \<le> concurrent_users * requests_per_user"
  shows "int (length (run_load_test net clock url concurrent_users requests_per_user timeout delay))
           = concurrent_users * requests_per_user
       \<and> (\<forall>i < nat (concurrent_users * requests_per_user).
            run_load_test net clock url concurrent_users requests_per_user timeout delay ! i
              = fst (fetch_with_metrics (net i) url timeout delay clock))"
  using assms by (simp add: run_load_test_def gather_def length_dispatch nth_dispatch)

theorem run_load_test_length_witness:
  "(0::int) \<le> 3 * 2
   \<and> int (length (run_load_test (slow_server (1/20)) 0 ''http://h'' 3 2 5 100)) = 3 * 2
   \<and> run_load_test (slow_server (1/20)) 0 ''http://h'' 3 2 5 100 ! 4
       = fst (fetch_with_metrics (slow_server (1/20) 4) ''http://h'' 5 100 0)"
proof -
  have h: "(0::int) \<le> 3 * 2" by simp
  have "(4::nat) < nat (3 * 2)" by simp
  with run_load_test_length [OF h, of "slow_server (1/20)" 0 "''http://h''" 5 100]
  show ?thesis by simp
qed

section \<open>Properties of the request executor\<close>

text \<open>What \<open>fetch_with_metrics\<close> returns on each of its three paths.\<close>

lemma try_block_cases:
  "try_block session url timeout delay start_time clock =
     (case reply (session url timeout) of
        Raised e \<Rightarrow> Inl e
      | Response st content \<Rightarrow>
          Inr \<lparr> status = Http st,
                response_time = Some (((if delay > 0 then clock + of_int delay / 1000 else clock)
                                        + elapsed (session url timeout) - start_time) * 1000),
                content_length = Some (length content),
                success = (200 \<le> st \<and> st < 300),
                timestamp = Some ((if delay > 0 then clock + of_int delay / 1000 else clock)
                                    + elapsed (session url timeout)),
                error = None \<rparr>,
      (if delay > 0 then clock + of_int delay / 1000 else clock) + elapsed (session url timeout))"
  by (simp add: try_block_def asyncio_sleep_def Let_def split: reply.split)

lemma fetch_Response:
  "reply (session url timeout) = Response st content \<Longrightarrow>
   fetch_with_metrics session url timeout delay clock =
     (Inr \<lparr> status = Http st,
            response_time = Some (((if delay > 0 then of_int delay / 1000 else 0)
                                     + elapsed (session url timeout)) * 1000),
            content_length = Some (length content),
            success = (200 \<le> st \<and> st < 300),
            timestamp = Some ((if delay > 0 then clock + of_int delay / 1000 else clock)
                                + elapsed (session url timeout)),
            error = None \<rparr>,
      (if delay > 0 then clock + of_int delay / 1000 else clock) + elapsed (session url timeout))"
  by (simp add: fetch_with_metrics_def try_block_cases)

lemma fetch_Timeout:
  "reply (session url timeout) = Raised TimeoutError \<Longrightarrow>
   fetch_with_metrics session url timeout delay clock =
     (Inr \<lparr> status = Sentinel ''timeout'',
            response_time = Some (of_int (timeout * 1000)),
            content_length = None, success = False, timestamp = None,
            error = Some ''Timeout'' \<rparr>,
      (if delay > 0 then clock + of_int delay / 1000 else clock) + elapsed (session url timeout))"
  by (simp add: fetch_with_metrics_def try_block_cases)

lemma fetch_Other:
  "reply (session url timeout) = Raised (OtherException msg) \<Longrightarrow>
   fetch_with_metrics session url timeout delay clock =
     (Inr \<lparr> status = Sentinel ''error'',
            response_time = None,
            content_length = None, success = False, timestamp = None,
            error = Some msg \<rparr>,
      (if delay > 0 then clock + of_int delay / 1000 else clock) + elapsed (session url timeout))"
  by (simp add: fetch_with_metrics_def try_block_cases)

lemma fetch_is_dict: "\<exists>r. fst (fetch_with_metrics session url timeout delay clock) = Inr r"
proof (cases "reply (session url timeout)")
  case (Response st content)
  then show ?thesis by (simp add: fetch_Response)
next
  case (Raised e)
  then show ?thesis by (cases e) (simp_all add: fetch_Timeout fetch_Other)
qed

text \<open>
  C6. \<open>fetch_with_metrics\<close> never raises: whatever the exchange does (a response, a
  timeout, any other exception), the value it returns is a result dictionary (\<open>Inr r\<close>),
  never an exception (\<open>Inl e\<close>). Hence every entry of the batch that \<open>run_load_test\<close>
  returns is a result dictionary: a failing request does not abort the batch.
\<close>

theorem fetch_with_metrics_never_raises:
  "(\<exists>r. fst (fetch_with_metrics session url timeout delay clock) = Inr r)
   \<and> (\<forall>i < length (run_load_test net clock url cu rpu timeout delay).
        \<exists>r. run_load_test net clock url cu rpu timeout delay ! i = Inr r)"
  by (simp add: fetch_is_dict length_run_load_test nth_run_load_test)

theorem fetch_with_metrics_never_raises_witness:
  "(\<exists>r. fst (fetch_with_metrics (mixed_server 0) ''http://h'' 1 0 0) = Inr r)
   \<and> (0::nat) < length (run_load_test mixed_server 0 ''http://h'' 3 1 1 0)
   \<and> (\<exists>r. run_load_test mixed_server 0 ''http://h'' 3 1 1 0 ! 0 = Inr r)
   \<and> reply (mixed_server 0 ''http://h'' 1) = Raised (OtherException ''Cannot connect to host'')"
proof -
  have len: "(0::nat) < length (run_load_test mixed_server 0 ''http://h'' 3 1 1 0)"
    by (simp add: length_run_load_test)
  have "reply (mixed_server 0 ''http://h'' 1) = Raised (OtherException ''Cannot connect to host'')"
    by (simp add: mixed_server_def)
  with len
    fetch_with_metrics_never_raises [of "mixed_server 0" "''http://h''" 1 0 0 mixed_server 3 1]
  show ?thesis by blast
qed

text \<open>
  C7. When the exchange times out, the result has status \<open>''timeout''\<close>, the response time
  \<open>timeout * 1000\<close> (the budget in milliseconds), \<open>success = False\<close> and the error text
  \<open>''Timeout''\<close>. When it raises any other exception, the result has status \<open>''error''\<close>,
  no response time, \<open>success = False\<close> and the text of the exception as its error.
\<close>

theorem fetch_with_metrics_failure_results:
  "(reply (session url timeout) = Raised TimeoutError \<longrightarrow>
      (\<exists>r. fst (fetch_with_metrics session url timeout delay clock) = Inr r
         \<and> status r = Sentinel ''timeout''
         \<and> response_time r = Some (of_int timeout * 1000)
         \<and> success r = False
         \<and> error r = Some ''Timeout''))
   \<and> (reply (session url timeout) = Raised (OtherException msg) \<longrightarrow>
      (\<exists>r. fst (fetch_with_metrics session url timeout delay clock) = Inr r
         \<and> status r = Sentinel ''error''
         \<and> response_time r = None
         \<and> success r = False
         \<and> error r = Some msg))"
  by (simp add: fetch_Timeout fetch_Other)

theorem fetch_with_metrics_failure_results_witness:
  "reply (slow_server 2 0 ''http://h'' 1) = Raised TimeoutError
   \<and> (\<exists>r. fst (fetch_with_metrics (slow_server 2 0) ''http://h'' 1 100 0) = Inr r
         \<and> status r = Sentinel ''timeout''
         \<and> response_time r = Some 1000
         \<and> success r = False
         \<and> error r = Some ''Timeout'')
   \<and> reply (unreachable 0 ''http://h'' 1) = Raised (OtherException ''Cannot connect to host'')
   \<and> (\<exists>r. fst (fetch_with_metrics (unreachable 0) ''http://h'' 1 100 0) = Inr r
         \<and> status r = Sentinel ''error''
         \<and> response_time r = None
         \<and> success r = False
         \<and> error r = Some ''Cannot connect to host'')"
proof -
  have t: "reply (slow_server 2 0 ''http://h'' 1) = Raised TimeoutError"
    by (simp add: slow_server_def)
  have e: "reply (unreachable 0 ''http://h'' 1) = Raised (OtherException ''Cannot connect to host'')"
    by (simp add: unreachable_def)
  from t fetch_with_metrics_failure_results [of "slow_server 2 0" "''http://h''" 1 100 0]
  have a: "\<exists>r. fst (fetch_with_metrics (slow_server 2 0) ''http://h'' 1 100 0) = Inr r
         \<and> status r = Sentinel ''timeout''
         \<and> response_time r = Some 1000
         \<and> success r = False
         \<and> error r = Some ''Timeout''" by simp
  from e fetch_with_metrics_failure_results
     [of "unreachable 0" "''http://h''" 1 100 0 "''Cannot connect to host''"]
  have b: "\<exists>r. fst (fetch_with_metrics (unreachable 0) ''http://h'' 1 100 0) = Inr r
         \<and> status r = Sentinel ''error''
         \<and> response_time r = None
         \<and> success r = False
         \<and> error r = Some ''Cannot connect to host''" by simp
  from t e a b show ?thesis by blast
qed

text \<open>
  C10. The timeout budget reaches the HTTP exchange only. Whatever the delay, the result
  has status \<open>''timeout''\<close> exactly when the exchange, under the budget \<open>timeout\<close>, raises
  a timeout; and the execution lasts the delay plus the exchange, which can be longer than
  the budget with no timeout result (the witness: a budget of 1 s, a delay of 1000 ms, an
  answer after 0.5 s, status 200 after 1.5 s).
\<close>

theorem timeout_budget_excludes_delay:
  assumes "fetch_with_metrics session url timeout delay clock = (outcome, clock')"
  shows "(\<exists>r. outcome = Inr r
            \<and> (status r = Sentinel ''timeout'')
                = (reply (session url timeout) = Raised TimeoutError))
         \<and> clock' - clock
             = (if delay > 0 then of_int delay / 1000 else 0) + elapsed (session url timeout)"
proof (cases "reply (session url timeout)")
  case (Response st content)
  with assms show ?thesis by (auto simp: fetch_Response)
next
  case (Raised e)
  with assms show ?thesis by (cases e) (auto simp: fetch_Timeout fetch_Other)
qed

theorem timeout_budget_excludes_delay_witness:
  "fetch_with_metrics (slow_server (1/2) 0) ''http://h'' 1 1000 0
     = (Inr \<lparr> status = Http 200, response_time = Some 1500, content_length = Some 2,
              success = True, timestamp = Some (3/2), error = None \<rparr>, 3/2)
   \<and> reply (slow_server (1/2) 0 ''http://h'' 1) \<noteq> Raised TimeoutError
   \<and> (3/2 :: rat) - 0 = 1000 / 1000 + elapsed (slow_server (1/2) 0 ''http://h'' 1)
   \<and> (3/2 :: rat) - 0 > of_int 1"
proof -
  have f: "fetch_with_metrics (slow_server (1/2) 0) ''http://h'' 1 1000 0
     = (Inr \<lparr> status = Http 200, response_time = Some 1500, content_length = Some 2,
              success = True, timestamp = Some (3/2), error = None \<rparr>, 3/2)"
    by (simp add: fetch_Response slow_server_def)
  from timeout_budget_excludes_delay [OF f] f show ?thesis by simp
qed

text \<open>
  C2. The code at a delay of 100 ms and an exchange of 50 ms: the timer is read on entry,
  before the delay, so the response time recorded is 150 ms, the delay included.
\<close>

theorem delay_counted_in_response_time:
  "elapsed (slow_server (1/20) 0 ''http://h'' 5) * 1000 = 50
   \<and> fetch_with_metrics (slow_server (1/20) 0) ''http://h'' 5 100 0
       = (Inr \<lparr> status = Http 200, response_time = Some 150, content_length = Some 2,
                success = True, timestamp = Some (3/20), error = None \<rparr>, 3/20)"
  by (simp add: fetch_Response slow_server_def)

text \<open>
  C9. The code on its three paths: the results of a timeout and of an error have no
  timestamp entry; the result of a response has one.
\<close>

theorem failure_results_lack_timestamp:
  "fst (fetch_with_metrics (slow_server 2 0) ''http://h'' 1 0 0)
     = Inr \<lparr> status = Sentinel ''timeout'', response_time = Some 1000, content_length = None,
             success = False, timestamp = None, error = Some ''Timeout'' \<rparr>
   \<and> fst (fetch_with_metrics (unreachable 0) ''http://h'' 1 0 0)
     = Inr \<lparr> status = Sentinel ''error'', response_time = None, content_length = None,
             success = False, timestamp = None, error = Some ''Cannot connect to host'' \<rparr>
   \<and> (\<exists>r. fst (fetch_with_metrics (slow_server (1/20) 0) ''http://h'' 1 0 0) = Inr r
          \<and> timestamp r = Some (1/20))"
  by (simp add: fetch_Response fetch_Timeout fetch_Other slow_server_def unreachable_def)

section \<open>Properties of the metrics aggregator\<close>

lemma dicts_append: "dicts (xs @ ys) = dicts xs @ dicts ys"
  by (induction xs rule: dicts.induct) simp_all

lemma valid_results_append:
  "valid_results (xs @ ys) = valid_results xs @ valid_results ys"
  by (simp add: valid_results_def dicts_append)

lemma response_times_append:
  "response_times (xs @ ys) = response_times xs @ response_times ys"
  by (simp add: response_times_def valid_results_append)

lemma response_times_Nil: "response_times [] = []"
  by (simp add: response_times_def valid_results_def)

lemma response_times_fetch:
  "response_times [fst (fetch_with_metrics session url timeout delay clock)]
     = (case reply (session url timeout) of
          Response st content \<Rightarrow>
            [((if delay > 0 then of_int delay / 1000 else 0) + elapsed (session url timeout)) * 1000]
        | Raised TimeoutError \<Rightarrow> [of_int (timeout * 1000)]
        | Raised (OtherException msg) \<Rightarrow> [])"
proof (cases "reply (session url timeout)")
  case (Response st content)
  then show ?thesis
    by (simp add: fetch_Response response_times_def valid_results_def)
next
  case (Raised e)
  then show ?thesis
    by (cases e)
       (simp_all add: fetch_Timeout fetch_Other response_times_def valid_results_def)
qed

lemma response_times_dispatch:
  "response_times (dispatch net clock url timeout delay k)
     = concat (map (\<lambda>i. response_times [fst (fetch_with_metrics (net i) url timeout delay clock)])
                [0..<k])"
  by (induction k) (simp_all add: response_times_Nil response_times_append)

lemma response_times_run_load_test:
  "response_times (run_load_test net clock url cu rpu timeout delay)
     = concat (map (\<lambda>i. response_times [fst (fetch_with_metrics (net i) url timeout delay clock)])
                [0..<nat (cu * rpu)])"
  by (simp add: run_load_test_def gather_def response_times_dispatch)

lemma response_times_empty_iff: "response_times results = [] \<longleftrightarrow> valid_results results = []"
  by (simp add: response_times_def)

lemma length_response_times: "length (response_times results) = length (valid_results results)"
  by (simp add: response_times_def)

lemma sort_Nil_iff: "sort xs = [] \<longleftrightarrow> (xs :: rat list) = []"
  using length_sort [of "\<lambda>x. x" xs] by (metis length_0_conv)

lemma median_eq:
  "median xs =
     (if xs = [] then None
      else Some (if length xs mod 2 = 1 then sort xs ! (length xs div 2)
                 else (sort xs ! (length xs div 2 - 1) + sort xs ! (length xs div 2)) / 2))"
  by (simp add: median_def Let_def sort_Nil_iff)

lemma median_Some: "xs \<noteq> [] \<Longrightarrow> \<exists>m. median xs = Some m"
  by (simp add: median_eq)

lemma quantiles_index:
  "2 \<le> length xs \<Longrightarrow> i < 99 \<Longrightarrow>
   (quantiles xs 100 \<bind> (\<lambda>qs. index qs i)) = Some (cut_point (sort xs) 100 (Suc i))"
  by (simp add: quantiles_def index_def Let_def)

lemma percentile_table_eq:
  assumes "sample \<noteq> []"
  shows "\<exists>m. median sample = Some m
     \<and> percentile_table sample =
        Some \<lparr> minimum = Min (set sample), p50 = m,
               p95 = (if 20 \<le> length sample then cut_point (sort sample) 100 95
                      else Max (set sample)),
               p99 = (if 50 \<le> length sample then cut_point (sort sample) 100 99
                      else Max (set sample)),
               maximum = Max (set sample) \<rparr>"
proof -
  from assms obtain m where m: "median sample = Some m"
    using median_Some by blast
  have q95: "20 \<le> length sample \<Longrightarrow>
      (quantiles sample 100 \<bind> (\<lambda>qs. index qs 94)) = Some (cut_point (sort sample) 100 95)"
    using quantiles_index [of sample 94] by simp
  have q99: "50 \<le> length sample \<Longrightarrow>
      (quantiles sample 100 \<bind> (\<lambda>qs. index qs 98)) = Some (cut_point (sort sample) 100 99)"
    using quantiles_index [of sample 98] by simp
  show ?thesis
    using assms m q95 q99 by (simp add: percentile_table_def py_min_def py_max_def)
qed

lemma process_no_data:
  "valid_results results = [] \<Longrightarrow> process_and_display_results results d = Some NoValidResponses"
  by (simp add: process_and_display_results_def)

lemma valid_results_length_le: "length (valid_results results) \<le> length results"
proof -
  have "length (dicts results) \<le> length results"
    by (induction results rule: dicts.induct) simp_all
  moreover have "length (valid_results results) \<le> length (dicts results)"
    by (simp add: valid_results_def)
  ultimately show ?thesis by linarith
qed

lemma process_report:
  assumes "valid_results results \<noteq> []"
  shows "\<exists>t. percentile_table (response_times results) = Some t
     \<and> process_and_display_results results d =
        Some (Report \<lparr> total_requests = length results,
                       success_count = length (successful_results results),
                       success_rate = of_nat (length (successful_results results))
                                        / of_nat (length results) * 100,
                       avg_response_time = sum_list (response_times results)
                                             / of_nat (length (response_times results)),
                       throughput = (if d > 0 then of_nat (length results) / d else 0),
                       analysis = Some t \<rparr>)"
proof -
  from assms have ne: "response_times results \<noteq> []"
    by (simp add: response_times_empty_iff)
  then obtain t where t: "percentile_table (response_times results) = Some t"
    using percentile_table_eq by blast
  from assms have "0 < length (valid_results results)" by simp
  with valid_results_length_le [of results] have pos: "0 < length results" by linarith
  show ?thesis
    using assms ne t pos by (simp add: process_and_display_results_def mean_def Let_def)
qed


lemma response_times_map_filter:
  "response_times results = List.map_filter response_time (dicts results)"
  by (simp add: response_times_def valid_results_def map_filter_def comp_def)

lemma process_report_sample:
  assumes "valid_results results \<noteq> []"
  shows "\<exists>s. process_and_display_results results d = Some (Report s)
     \<and> analysis s = percentile_table (response_times results)
     \<and> avg_response_time s
         = sum_list (response_times results) / of_nat (length (response_times results))
     \<and> success_rate s
         = of_nat (length (successful_results results)) / of_nat (length results) * 100
     \<and> total_requests s = length results"
  using process_report [OF assms, of d] by auto

lemma mixed_batch:
  "run_load_test mixed_server 0 ''http://h'' 3 1 1 0 =
     [Inr \<lparr> status = Sentinel ''error'', response_time = None, content_length = None,
             success = False, timestamp = None, error = Some ''Cannot connect to host'' \<rparr>,
      Inr \<lparr> status = Sentinel ''timeout'', response_time = Some 1000, content_length = None,
             success = False, timestamp = None, error = Some ''Timeout'' \<rparr>,
      Inr \<lparr> status = Http 200, response_time = Some 50, content_length = Some 2,
             success = True, timestamp = Some (1/20), error = None \<rparr>]"
  by (simp add: run_load_test_def gather_def eval_nat_numeral
        fetch_Response fetch_Timeout fetch_Other mixed_server_def)

lemma mixed_times: "response_times (run_load_test mixed_server 0 ''http://h'' 3 1 1 0) = [1000, 50]"
  by (simp add: mixed_batch response_times_def valid_results_def)

lemma mixed_table:
  "percentile_table [1000, 50] =
     Some \<lparr> minimum = 50, p50 = 525, p95 = 1000, p99 = 1000, maximum = 1000 \<rparr>"
  by (simp add: percentile_table_def median_def py_min_def py_max_def Let_def)

lemma mixed_report:
  "process_and_display_results (run_load_test mixed_server 0 ''http://h'' 3 1 1 0) 1 =
     Some (Report \<lparr> total_requests = 3, success_count = 1, success_rate = 100/3,
                    avg_response_time = 525, throughput = 3,
                    analysis = Some \<lparr> minimum = 50, p50 = 525, p95 = 1000, p99 = 1000,
                                      maximum = 1000 \<rparr> \<rparr>)"
  by (simp add: process_and_display_results_def mixed_times mixed_table mean_def Let_def)
     (simp add: mixed_batch valid_results_def successful_results_def)

lemma tail_dispatch_times:
  "k \<le> 49 \<Longrightarrow> response_times (dispatch tail_server clock url timeout 0 k) = replicate k 100"
proof (induction k)
  case 0
  then show ?case by (simp add: response_times_Nil)
next
  case (Suc k)
  then have "response_times [fst (fetch_with_metrics (tail_server k) url timeout 0 clock)] = [100]"
    by (simp add: response_times_fetch tail_server_def)
  with Suc show ?case
    by (simp add: response_times_append replicate_append_same)
qed

lemma tail_times:
  "response_times (run_load_test tail_server 0 ''http://h'' 50 1 10 0) = replicate 49 100 @ [200]"
proof -
  have last: "response_times [fst (fetch_with_metrics (tail_server 49) ''http://h'' 10 0 0)] = [200]"
    by (simp add: response_times_fetch tail_server_def)
  have "run_load_test tail_server 0 ''http://h'' 50 1 10 0
          = dispatch tail_server 0 ''http://h'' 10 0 (Suc 49)"
    by (simp add: run_load_test_def gather_def)
  also have "\<dots> = dispatch tail_server 0 ''http://h'' 10 0 49
                   @ [fst (fetch_with_metrics (tail_server 49) ''http://h'' 10 0 0)]"
    by (rule dispatch.simps)
  finally show ?thesis
    by (simp add: response_times_append tail_dispatch_times last)
qed

lemma tail_sorted: "sort (replicate 49 100 @ [200 :: rat]) = replicate 49 100 @ [200]"
  by (rule sorted_sort_id) (simp add: sorted_append)

lemma tail_table:
  "percentile_table (replicate 49 100 @ [200]) =
     Some \<lparr> minimum = 100, p50 = 100, p95 = 100, p99 = 249, maximum = 200 \<rparr>"
proof -
  let ?xs = "replicate 49 100 @ [200 :: rat]"
  have ne: "?xs \<noteq> []" by simp
  have len: "length ?xs = 50" by simp
  have med: "median ?xs = Some 100"
    by (simp add: median_eq tail_sorted nth_append)
  have c95: "cut_point ?xs 100 95 = 100"
    by (simp add: cut_point_def cut_index_def Let_def nth_append)
  have c99: "cut_point ?xs 100 99 = 249"
    by (simp add: cut_point_def cut_index_def Let_def nth_append)
  have mx: "Max (set ?xs) = 200" by simp
  have mn: "Min (set ?xs) = 100" by simp
  from percentile_table_eq [OF ne] med c95 c99 mx mn len show ?thesis
    by (simp add: tail_sorted)
qed


lemma mixed_valid: "valid_results (run_load_test mixed_server 0 ''http://h'' 3 1 1 0) \<noteq> []"
  using mixed_times response_times_empty_iff [of "run_load_test mixed_server 0 ''http://h'' 3 1 1 0"]
  by simp

lemma tail_valid: "valid_results (run_load_test tail_server 0 ''http://h'' 50 1 10 0) \<noteq> []"
  using tail_times response_times_empty_iff [of "run_load_test tail_server 0 ''http://h'' 50 1 10 0"]
  by simp

lemma unreachable_batch:
  "run_load_test unreachable 0 ''http://h'' 1 1 1 0 =
     [Inr \<lparr> status = Sentinel ''error'', response_time = None, content_length = None,
             success = False, timestamp = None, error = Some ''Cannot connect to host'' \<rparr>]"
  by (simp add: run_load_test_def gather_def fetch_Other unreachable_def)

text \<open>
  C3, as stated, fails: of three requests (one cannot connect, one times out under a budget
  of 1 s, one is answered in 50 ms) the timed-out one puts its sentinel 1000 into the
  latency sample, and the maximum, P95 and P99 reported are that sentinel.
\<close>

theorem timeout_sentinel_in_sample:
  "run_load_test mixed_server 0 ''http://h'' 3 1 1 0 ! 1
     = Inr \<lparr> status = Sentinel ''timeout'', response_time = Some 1000, content_length = None,
             success = False, timestamp = None, error = Some ''Timeout'' \<rparr>
   \<and> response_times (run_load_test mixed_server 0 ''http://h'' 3 1 1 0) = [1000, 50]
   \<and> process_and_display_results (run_load_test mixed_server 0 ''http://h'' 3 1 1 0) 1 =
       Some (Report \<lparr> total_requests = 3, success_count = 1, success_rate = 100/3,
                      avg_response_time = 525, throughput = 3,
                      analysis = Some \<lparr> minimum = 50, p50 = 525, p95 = 1000, p99 = 1000,
                                        maximum = 1000 \<rparr> \<rparr>)"
  by (simp add: mixed_times mixed_report) (simp add: mixed_batch)

text \<open>
  C3, amended. The latency sample is made of the response times of all result dictionaries
  whose response time is not null, in the order of the batch: a timed-out request
  contributes the sentinel \<open>timeout * 1000\<close>, a request that raised another exception
  contributes nothing, an answered request (whatever its status) contributes one value;
  the sample of a batch is the concatenation of the contributions of its executions, and
  the percentile table is computed over this sample.
\<close>

theorem latency_sample_includes_timeouts:
  "response_times results = List.map_filter response_time (dicts results)
   \<and> (reply (session url timeout) = Raised TimeoutError \<longrightarrow>
        response_times [fst (fetch_with_metrics session url timeout delay clock)]
          = [of_int timeout * 1000])
   \<and> (reply (session url timeout) = Raised (OtherException msg) \<longrightarrow>
        response_times [fst (fetch_with_metrics session url timeout delay clock)] = [])
   \<and> (reply (session url timeout) = Response st content \<longrightarrow>
        (\<exists>t. response_times [fst (fetch_with_metrics session url timeout delay clock)] = [t]))
   \<and> response_times (run_load_test net clock url cu rpu timeout delay)
        = concat (map (\<lambda>i. response_times [fst (fetch_with_metrics (net i) url timeout delay clock)])
                   [0..<nat (cu * rpu)])
   \<and> (valid_results results \<noteq> [] \<longrightarrow>
        (\<exists>s. process_and_display_results results d = Some (Report s)
           \<and> analysis s = percentile_table (response_times results)))"
proof -
  have "valid_results results \<noteq> [] \<longrightarrow>
        (\<exists>s. process_and_display_results results d = Some (Report s)
           \<and> analysis s = percentile_table (response_times results))"
    using process_report_sample [of results d] by blast
  then show ?thesis
    by (simp add: response_times_map_filter [symmetric] response_times_fetch
          response_times_run_load_test)
qed

theorem latency_sample_includes_timeouts_witness:
  "reply (slow_server 2 0 ''http://h'' 1) = Raised TimeoutError
   \<and> response_times [fst (fetch_with_metrics (slow_server 2 0) ''http://h'' 1 0 0)] = [1000]
   \<and> reply (unreachable 0 ''http://h'' 1) = Raised (OtherException ''Cannot connect to host'')
   \<and> response_times [fst (fetch_with_metrics (unreachable 0) ''http://h'' 1 0 0)] = []
   \<and> reply (slow_server (1/20) 0 ''http://h'' 1) = Response 200 ''ok''
   \<and> (\<exists>t. response_times [fst (fetch_with_metrics (slow_server (1/20) 0) ''http://h'' 1 0 0)] = [t])
   \<and> valid_results (run_load_test mixed_server 0 ''http://h'' 3 1 1 0) \<noteq> []
   \<and> response_times (run_load_test mixed_server 0 ''http://h'' 3 1 1 0) = [1000, 50]
   \<and> (\<exists>s. process_and_display_results (run_load_test mixed_server 0 ''http://h'' 3 1 1 0) 1
              = Some (Report s)
          \<and> analysis s = Some \<lparr> minimum = 50, p50 = 525, p95 = 1000, p99 = 1000,
                                  maximum = 1000 \<rparr>)"
proof -
  have t: "reply (slow_server 2 0 ''http://h'' 1) = Raised TimeoutError"
    by (simp add: slow_server_def)
  have e: "reply (unreachable 0 ''http://h'' 1) = Raised (OtherException ''Cannot connect to host'')"
    by (simp add: unreachable_def)
  have r: "reply (slow_server (1/20) 0 ''http://h'' 1) = Response 200 ''ok''"
    by (simp add: slow_server_def)
  note v = mixed_valid
  from t latency_sample_includes_timeouts [of "[]" "slow_server 2 0" "''http://h''" 1 0 0]
  have a: "response_times [fst (fetch_with_metrics (slow_server 2 0) ''http://h'' 1 0 0)] = [1000]"
    by simp
  from e latency_sample_includes_timeouts
     [of "[]" "unreachable 0" "''http://h''" 1 0 0 "''Cannot connect to host''"]
  have b: "response_times [fst (fetch_with_metrics (unreachable 0) ''http://h'' 1 0 0)] = []"
    by simp
  from r latency_sample_includes_timeouts
     [of "[]" "slow_server (1/20) 0" "''http://h''" 1 0 0 _ 200 "''ok''"]
  have c: "\<exists>t. response_times [fst (fetch_with_metrics (slow_server (1/20) 0) ''http://h'' 1 0 0)] = [t]"
    by simp
  from v latency_sample_includes_timeouts
     [of "run_load_test mixed_server 0 ''http://h'' 3 1 1 0" _ _ _ _ _ _ _ _ _ _ _ 1]
  have d: "\<exists>s. process_and_display_results (run_load_test mixed_server 0 ''http://h'' 3 1 1 0) 1
              = Some (Report s)
          \<and> analysis s = Some \<lparr> minimum = 50, p50 = 525, p95 = 1000, p99 = 1000,
                                  maximum = 1000 \<rparr>"
    by (simp add: mixed_times mixed_table)
  from t e r v a b c d mixed_times show ?thesis by blast
qed

text \<open>
  C4. When no result has a response time, the aggregator shows the no-data outcome and
  computes nothing. Otherwise it reports a summary whose success rate is
  \<open>100 * |successful| / |results|\<close>, the denominator counting every entry of the batch
  (also the ones left out of the latency sample), and is not zero.
\<close>

theorem success_rate_over_all_results:
  "(valid_results results = [] \<longrightarrow>
      process_and_display_results results d = Some NoValidResponses)
   \<and> (valid_results results \<noteq> [] \<longrightarrow>
      (\<exists>s. process_and_display_results results d = Some (Report s)
         \<and> success_rate s
             = 100 * of_nat (length (successful_results results)) / of_nat (length results)
         \<and> 0 < length results))"
proof -
  have "valid_results results \<noteq> [] \<Longrightarrow> 0 < length results"
    using valid_results_length_le [of results] by (cases results) simp_all
  moreover have "valid_results results \<noteq> [] \<Longrightarrow>
      \<exists>s. process_and_display_results results d = Some (Report s)
         \<and> success_rate s
             = 100 * of_nat (length (successful_results results)) / of_nat (length results)"
    using process_report_sample [of results d] by auto
  ultimately show ?thesis by (auto simp: process_no_data)
qed

theorem success_rate_over_all_results_witness:
  "valid_results (run_load_test unreachable 0 ''http://h'' 1 1 1 0) = []
   \<and> process_and_display_results (run_load_test unreachable 0 ''http://h'' 1 1 1 0) 1
       = Some NoValidResponses
   \<and> valid_results (run_load_test mixed_server 0 ''http://h'' 3 1 1 0) \<noteq> []
   \<and> length (successful_results (run_load_test mixed_server 0 ''http://h'' 3 1 1 0)) = 1
   \<and> length (run_load_test mixed_server 0 ''http://h'' 3 1 1 0) = 3
   \<and> (\<exists>s. process_and_display_results (run_load_test mixed_server 0 ''http://h'' 3 1 1 0) 1
              = Some (Report s)
          \<and> success_rate s = 100 * 1 / 3)"
proof -
  have u: "valid_results (run_load_test unreachable 0 ''http://h'' 1 1 1 0) = []"
    by (simp add: unreachable_batch valid_results_def)
  note v = mixed_valid
  have n1: "length (successful_results (run_load_test mixed_server 0 ''http://h'' 3 1 1 0)) = 1"
    by (simp add: mixed_batch successful_results_def valid_results_def)
  have n3: "length (run_load_test mixed_server 0 ''http://h'' 3 1 1 0) = 3"
    by (simp add: mixed_batch)
  from u success_rate_over_all_results [of "run_load_test unreachable 0 ''http://h'' 1 1 1 0" 1]
  have a: "process_and_display_results (run_load_test unreachable 0 ''http://h'' 1 1 1 0) 1
       = Some NoValidResponses" by simp
  from v success_rate_over_all_results [of "run_load_test mixed_server 0 ''http://h'' 3 1 1 0" 1]
  have b: "\<exists>s. process_and_display_results (run_load_test mixed_server 0 ''http://h'' 3 1 1 0) 1
              = Some (Report s)
          \<and> success_rate s = 100 * 1 / 3"
    by (simp add: n1 n3)
  from u v n1 n3 a b show ?thesis by blast
qed

text \<open>
  The percentile policy: for a sample of fewer than 20 values the reported P95 is the
  sample maximum, for fewer than 50 values so is the P99; from those sizes on each is the
  cut point 95 (99) of \<open>quantiles\<close> with \<open>n = 100\<close> over the sorted sample.
\<close>

lemma percentile_policy:
  assumes "valid_results results \<noteq> []"
  shows "\<exists>s t. process_and_display_results results d = Some (Report s) \<and> analysis s = Some t
     \<and> p95 t = (if length (response_times results) < 20 then Max (set (response_times results))
                else cut_point (sort (response_times results)) 100 95)
     \<and> p99 t = (if length (response_times results) < 50 then Max (set (response_times results))
                else cut_point (sort (response_times results)) 100 99)
     \<and> maximum t = Max (set (response_times results))"
proof -
  from assms have ne: "response_times results \<noteq> []"
    by (simp add: response_times_empty_iff)
  from process_report_sample [OF assms, of d] obtain s where
    s: "process_and_display_results results d = Some (Report s)"
       "analysis s = percentile_table (response_times results)" by blast
  from percentile_table_eq [OF ne] obtain t where
    t: "percentile_table (response_times results) = Some t"
       "p95 t = (if 20 \<le> length (response_times results)
                 then cut_point (sort (response_times results)) 100 95
                 else Max (set (response_times results)))"
       "p99 t = (if 50 \<le> length (response_times results)
                 then cut_point (sort (response_times results)) 100 99
                 else Max (set (response_times results)))"
       "maximum t = Max (set (response_times results))"
    by auto
  from s t show ?thesis by (auto simp: not_less)
qed

text \<open>
  A cut point is the point at weight \<open>w\<close> on the line through the values \<open>j - 1\<close> and
  \<open>j\<close> of the sorted data, \<open>j\<close> the clamped rank; it lies between the two values only
  when \<open>0 \<le> w \<le> 1\<close>.
\<close>

lemma cut_point_weight:
  "cut_point data 100 q =
     (let j = cut_index (length data) 100 q;
          w = (of_int (int (q * (length data + 1)) - int (j * 100)) :: rat) / 100
      in data ! (j - 1) + (data ! j - data ! (j - 1)) * w)"
  by (simp add: cut_point_def Let_def field_simps)

lemma unclamped_weight:
  "(of_int (int a - int ((a div 100) * 100)) :: rat) / 100 = of_nat (a mod 100) / 100"
proof -
  have "int a - int ((a div 100) * 100) = int (a mod 100)"
    using div_mult_mod_eq [of a 100] by linarith
  then show ?thesis by simp
qed

lemma cut_index_unclamped:
  "1 \<le> i * (ld + 1) div n \<Longrightarrow> i * (ld + 1) div n < ld
     \<Longrightarrow> cut_index ld n i = i * (ld + 1) div n"
  by (auto simp: cut_index_def Let_def)

lemma cut_index_clamped:
  "1 \<le> i * (ld + 1) div n \<Longrightarrow> ld - 1 \<le> i * (ld + 1) div n
     \<Longrightarrow> cut_index ld n i = ld - 1"
  by (auto simp: cut_index_def Let_def)

lemma p95_rank:
  assumes "20 \<le> ld"
  shows "cut_index ld 100 95 = 95 * (ld + 1) div 100"
    and "1 \<le> 95 * (ld + 1) div 100"
    and "95 * (ld + 1) div 100 < ld"
proof -
  show a: "1 \<le> 95 * (ld + 1) div 100"
    using assms by (simp add: Suc_le_eq div_greater_zero_iff)
  show b: "95 * (ld + 1) div 100 < ld"
    using assms by (simp add: div_less_iff_less_mult)
  from a b show "cut_index ld 100 95 = 95 * (ld + 1) div 100"
    by (rule cut_index_unclamped)
qed

lemma p99_rank:
  assumes "100 \<le> ld"
  shows "cut_index ld 100 99 = 99 * (ld + 1) div 100"
    and "1 \<le> 99 * (ld + 1) div 100"
    and "99 * (ld + 1) div 100 < ld"
proof -
  show a: "1 \<le> 99 * (ld + 1) div 100"
    using assms by (simp add: Suc_le_eq div_greater_zero_iff)
  show b: "99 * (ld + 1) div 100 < ld"
    using assms by (simp add: div_less_iff_less_mult)
  from a b show "cut_index ld 100 99 = 99 * (ld + 1) div 100"
    by (rule cut_index_unclamped)
qed

lemma p99_clamped_rank:
  assumes "50 \<le> ld" "ld \<le> 99"
  shows "cut_index ld 100 99 = ld - 1"
proof -
  have a: "ld - 1 \<le> 99 * (ld + 1) div 100"
    using assms by (simp add: less_eq_div_iff_mult_less_eq)
  have b: "1 \<le> 99 * (ld + 1) div 100"
    using assms by (simp add: Suc_le_eq div_greater_zero_iff)
  from b a show ?thesis by (rule cut_index_clamped)
qed

text \<open>
  From 20 values on, the P95 cut point has an unclamped rank and a weight in \<open>[0, 1)\<close>;
  so has the P99 cut point from 100 values on.
\<close>

lemma p95_interpolates:
  assumes "20 \<le> length data"
  shows "cut_point data 100 95 =
     (let j = 95 * (length data + 1) div 100;
          w = of_nat (95 * (length data + 1) mod 100) / 100
      in data ! (j - 1) + (data ! j - data ! (j - 1)) * w)"
  unfolding cut_point_weight [of data 95] Let_def p95_rank(1) [OF assms] unclamped_weight
  by (rule refl)

lemma p99_interpolates:
  assumes "100 \<le> length data"
  shows "cut_point data 100 99 =
     (let j = 99 * (length data + 1) div 100;
          w = of_nat (99 * (length data + 1) mod 100) / 100
      in data ! (j - 1) + (data ! j - data ! (j - 1)) * w)"
  unfolding cut_point_weight [of data 99] Let_def p99_rank(1) [OF assms] unclamped_weight
  by (rule refl)

text \<open>
  For 50 to 99 values the rank of the P99 cut point is clamped to the last two values and
  its weight is \<open>(199 - ld) / 100\<close>, which is 1 for 99 values and more than 1 below.
\<close>

lemma p99_extrapolates:
  assumes "50 \<le> length data" "length data \<le> 99"
  shows "cut_point data 100 99 =
     data ! (length data - 2)
       + (data ! (length data - 1) - data ! (length data - 2)) * (of_nat (199 - length data) / 100)"
proof -
  have "int (99 * (length data + 1)) - int ((length data - 1) * 100) = int (199 - length data)"
    using assms by (simp add: of_nat_diff algebra_simps)
  then have w: "(of_int (int (99 * (length data + 1)) - int ((length data - 1) * 100)) :: rat) / 100
      = of_nat (199 - length data) / 100" by (simp only: of_int_of_nat_eq)
  have d: "length data - 1 - 1 = length data - 2" by simp
  show ?thesis
    unfolding cut_point_weight [of data 99] Let_def p99_clamped_rank [OF assms] w d
    by (rule refl)
qed

lemma interpolation_between:
  fixes a b w :: rat
  assumes "a \<le> b" "0 \<le> w" "w \<le> 1"
  shows "a \<le> a + (b - a) * w" and "a + (b - a) * w \<le> b"
proof -
  from assms show "a \<le> a + (b - a) * w" by simp
  have "(b - a) * w \<le> (b - a) * 1"
    using assms by (intro mult_left_mono) simp_all
  then show "a + (b - a) * w \<le> b" by simp
qed

lemma weight_mod_100: "(0::rat) \<le> of_nat (a mod 100) / 100 \<and> (of_nat (a mod 100) :: rat) / 100 \<le> 1"
proof -
  have "a mod 100 \<le> 100" by simp
  then have "(of_nat (a mod 100) :: rat) \<le> of_nat 100" by (simp only: of_nat_le_iff)
  then show ?thesis by simp
qed

lemma p95_between:
  assumes "sorted data" "20 \<le> length data"
  shows "data ! (95 * (length data + 1) div 100 - 1) \<le> cut_point data 100 95"
    and "cut_point data 100 95 \<le> data ! (95 * (length data + 1) div 100)"
proof -
  let ?j = "95 * (length data + 1) div 100"
  let ?w = "(of_nat (95 * (length data + 1) mod 100) :: rat) / 100"
  from p95_rank(3) [OF assms(2)] assms(1) have ab: "data ! (?j - 1) \<le> data ! ?j"
    by (intro sorted_nth_mono) simp_all
  have eq: "cut_point data 100 95 = data ! (?j - 1) + (data ! ?j - data ! (?j - 1)) * ?w"
    using p95_interpolates [OF assms(2)] by (simp only: Let_def)
  from weight_mod_100 [of "95 * (length data + 1)"] have w: "0 \<le> ?w" "?w \<le> 1" by blast+
  from interpolation_between [OF ab w] eq
  show "data ! (?j - 1) \<le> cut_point data 100 95" "cut_point data 100 95 \<le> data ! ?j"
    by simp_all
qed

lemma p99_between:
  assumes "sorted data" "100 \<le> length data"
  shows "data ! (99 * (length data + 1) div 100 - 1) \<le> cut_point data 100 99"
    and "cut_point data 100 99 \<le> data ! (99 * (length data + 1) div 100)"
proof -
  let ?j = "99 * (length data + 1) div 100"
  let ?w = "(of_nat (99 * (length data + 1) mod 100) :: rat) / 100"
  from p99_rank(3) [OF assms(2)] assms(1) have ab: "data ! (?j - 1) \<le> data ! ?j"
    by (intro sorted_nth_mono) simp_all
  have eq: "cut_point data 100 99 = data ! (?j - 1) + (data ! ?j - data ! (?j - 1)) * ?w"
    using p99_interpolates [OF assms(2)] by (simp only: Let_def)
  from weight_mod_100 [of "99 * (length data + 1)"] have w: "0 \<le> ?w" "?w \<le> 1" by blast+
  from interpolation_between [OF ab w] eq
  show "data ! (?j - 1) \<le> cut_point data 100 99" "cut_point data 100 99 \<le> data ! ?j"
    by simp_all
qed

lemma p99_beyond_last:
  assumes "50 \<le> length data" "length data \<le> 98"
    and "data ! (length data - 2) < data ! (length data - 1)"
  shows "data ! (length data - 1) < cut_point data 100 99"
proof -
  let ?a = "data ! (length data - 2)" and ?b = "data ! (length data - 1)"
  let ?w = "(of_nat (199 - length data) :: rat) / 100"
  from assms(2) have "101 \<le> 199 - length data" by simp
  then have "(of_nat 101 :: rat) \<le> of_nat (199 - length data)" by (simp only: of_nat_le_iff)
  then have w: "1 < ?w" by simp
  from assms(3) have "0 < ?b - ?a" by simp
  with w have "(?b - ?a) * 1 < (?b - ?a) * ?w" by (intro mult_strict_left_mono)
  then have "?b < ?a + (?b - ?a) * ?w" by simp
  with p99_extrapolates [of data] assms(1,2) show ?thesis by simp
qed

text \<open>
  C5. The code on a batch of 50 answered requests, 49 of 100 ms and one of 200 ms (a sample
  at the P99 threshold of 50): the reported P95 is the cut point 95, between the values
  48 and 49 of the sorted sample; the reported P99 is the cut point 99, whose rank is
  clamped to 49 and whose weight is 149/100: the point 249 beyond the last value 200 of
  the sorted sample, not a point between two of its values.
\<close>

theorem p99_not_interpolated:
  "length (response_times (run_load_test tail_server 0 ''http://h'' 50 1 10 0)) = 50
   \<and> sort (response_times (run_load_test tail_server 0 ''http://h'' 50 1 10 0))
        = replicate 49 100 @ [200]
   \<and> (\<exists>s t. process_and_display_results (run_load_test tail_server 0 ''http://h'' 50 1 10 0) 1
                = Some (Report s) \<and> analysis s = Some t
          \<and> p95 t = cut_point (replicate 49 100 @ [200]) 100 95
          \<and> p99 t = cut_point (replicate 49 100 @ [200]) 100 99)
   \<and> cut_index 50 100 95 = 48
   \<and> cut_point (replicate 49 100 @ [200]) 100 95 = 100 + (100 - 100) * (45 / 100)
   \<and> cut_index 50 100 99 = 49
   \<and> cut_point (replicate 49 100 @ [200]) 100 99 = 100 + (200 - 100) * (149 / 100)
   \<and> (replicate 49 100 @ [200 :: rat]) ! 48 = 100
   \<and> (replicate 49 100 @ [200 :: rat]) ! 49 = 200
   \<and> Max (set (replicate 49 100 @ [200 :: rat])) = 200
   \<and> cut_point (replicate 49 100 @ [200]) 100 99 = 249"
proof -
  let ?xs = "replicate 49 100 @ [200 :: rat]"
  from percentile_policy [OF tail_valid, of 1] obtain s t where
    "process_and_display_results (run_load_test tail_server 0 ''http://h'' 50 1 10 0) 1
       = Some (Report s)" "analysis s = Some t"
    "p95 t = cut_point ?xs 100 95" "p99 t = cut_point ?xs 100 99"
    by (auto simp: tail_times tail_sorted)
  then have rep: "\<exists>s t. process_and_display_results
                  (run_load_test tail_server 0 ''http://h'' 50 1 10 0) 1
                = Some (Report s) \<and> analysis s = Some t
          \<and> p95 t = cut_point ?xs 100 95 \<and> p99 t = cut_point ?xs 100 99"
    by blast
  have i95: "cut_index 50 100 95 = 48" by (simp add: cut_index_def Let_def)
  have i99: "cut_index 50 100 99 = 49" by (simp add: cut_index_def Let_def)
  have c95: "cut_point ?xs 100 95 = 100"
    by (simp add: cut_point_def cut_index_def Let_def nth_append)
  have c99: "cut_point ?xs 100 99 = 249"
    by (simp add: cut_point_def cut_index_def Let_def nth_append)
  have n48: "?xs ! 48 = 100" by (simp add: nth_append)
  have n49: "?xs ! 49 = 200" by (simp add: nth_append)
  have mx: "Max (set ?xs) = 200" by simp
  from rep i95 i99 c95 c99 n48 n49 mx show ?thesis
    by (simp add: tail_times tail_sorted)
qed

text \<open>
  C8. The code on a batch of 50 answered requests, 49 of 100 ms and one of 200 ms: the
  reported P99 is 249 ms, above the reported maximum of 200 ms.
\<close>

theorem p99_exceeds_maximum:
  "response_times (run_load_test tail_server 0 ''http://h'' 50 1 10 0) = replicate 49 100 @ [200]
   \<and> (\<exists>s. process_and_display_results (run_load_test tail_server 0 ''http://h'' 50 1 10 0) 1
             = Some (Report s)
         \<and> analysis s = Some \<lparr> minimum = 100, p50 = 100, p95 = 100, p99 = 249,
                                 maximum = 200 \<rparr>)"
proof -
  from process_report_sample [OF tail_valid, of 1] obtain s where
    "process_and_display_results (run_load_test tail_server 0 ''http://h'' 50 1 10 0) 1
       = Some (Report s)"
    "analysis s
       = percentile_table (response_times (run_load_test tail_server 0 ''http://h'' 50 1 10 0))"
    by blast
  then show ?thesis by (auto simp: tail_times tail_table)
qed

end
